theory Spec2Isabelle
  imports Complex_Main "HOL-Library.Sublist"
begin

section \<open>The SpeedTracer middleware of django-sugar\<close>

text \<open>
  A shallow embedding of \<^verbatim>\<open>sugar/middleware/speedtracer.py\<close>: the class
  \<^verbatim>\<open>SpeedTracerMiddleware\<close> with its constructor, the trace function it hands to
  \<^verbatim>\<open>sys.settrace\<close>, and its two request hooks. Mutation of \<^verbatim>\<open>self\<close>, of
  the cache, of standard output and of the interpreter's trace hook is explicit state
  passing; every exception the code can raise is a value \<open>Inl e\<close>.
\<close>

subsection \<open>Data\<close>

datatype error = TypeError | KeyError | AttributeError

text \<open>
  The value under the key \<^verbatim>\<open>'range'\<close> of a record: first the one-entry dictionary
  \<^verbatim>\<open>{"start_time": t}\<close> written at the call event, later the dictionary with the keys
  \<^verbatim>\<open>start\<close>, \<^verbatim>\<open>end\<close>, \<^verbatim>\<open>duration\<close> (in this order) that
  \<^verbatim>\<open>_build_range\<close> returns. Timestamps are Python floats, modelled as reals.
\<close>

datatype time_range = Start_time real | Range real real real

record source_code_location =
  className :: string
  methodName :: string
  lineNumber :: int

record operation =
  sourceCodeLocation :: source_code_location
  op_type :: string
  label :: string

text \<open>The dictionary \<^verbatim>\<open>new_record\<close>; \<open>span_id\<close> is its key \<^verbatim>\<open>'id'\<close>.\<close>

datatype span =
  Span (operation: operation) (children: "span list") (span_range: time_range) (span_id: int)

text \<open>The operation of the synthetic root has no source location.\<close>

record root_operation =
  root_type :: string
  root_label :: string

record frame_stack =
  fs_id :: int
  fs_range :: time_range
  fs_operation :: root_operation
  fs_children :: "span list"

record trace =
  trace_id :: string
  application :: string
  date :: real
  trace_range :: time_range
  frameStack :: frame_stack

text \<open>
  What the cache hands back on the retrieval path: the default \<^verbatim>\<open>{}\<close> or a stored
  dictionary \<^verbatim>\<open>{'trace': ...}\<close>.
\<close>

datatype pydata = EmptyDict | TraceData trace

text \<open>
  The parts of a frame object the trace function reads. \<open>f_module\<close> is
  \<^verbatim>\<open>inspect.getmodule(code).__name__\<close>, \<open>None\<close> when no module is found;
  \<open>self_class_name\<close> is \<^verbatim>\<open>frame.f_locals['self'].__class__.__name__\<close>, \<open>None\<close>
  when that raises KeyError or AttributeError.
\<close>

record frame =
  co_filename :: string
  co_name :: string
  f_lineno :: int
  f_module :: "string option"
  self_class_name :: "string option"

text \<open>
  The interpreter and the libraries the code calls. \<open>time_time n\<close> is the value of the
  \<open>n\<close>-th call of \<^verbatim>\<open>time.time()\<close>, \<open>obj_id n\<close> the \<^verbatim>\<open>id\<close> of the \<open>n\<close>-th record
  created, \<open>uuid4 n\<close> the text of the \<open>n\<close>-th \<^verbatim>\<open>uuid.uuid4()\<close>; \<open>re_match p s\<close>
  says whether the regular expression compiled from \<open>p\<close> matches at the start of \<open>s\<close>.
\<close>

record env =
  time_time :: "nat \<Rightarrow> real"
  obj_id :: "nat \<Rightarrow> int"
  uuid4 :: "nat \<Rightarrow> string"
  re_match :: "string \<Rightarrow> string \<Rightarrow> bool"
  re_escape :: "string \<Rightarrow> string"
  json_dumps :: "pydata \<Rightarrow> string"

text \<open>
  The Django settings the module reads, each \<open>None\<close> when the attribute is not set.
  \<open>SPEEDTRACER_CACHE_PREFIX\<close> is a \<^verbatim>\<open>%\<close>-template with one \<^verbatim>\<open>%s\<close>; it is
  modelled by the function \<^verbatim>\<open>s \<mapsto> template % s\<close>. \<open>SPEEDTRACER_FILE_FILTER_RE\<close>
  is a string or some other object (a compiled expression), each given by its pattern.
\<close>

datatype filter_setting = Pattern_string string | Regex_object string

record settings =
  SPEEDTRACER_CACHE_PREFIX :: "(string \<Rightarrow> string) option"
  SPEEDTRACER_DEBUG :: "bool option"
  SPEEDTRACER_TRACE_DJANGO :: "bool option"
  SPEEDTRACER_API_URL :: "string option"
  SPEEDTRACER_FILE_FILTER_RE :: "filter_setting option"
  SPEEDTRACER_TRACE_TTL :: "int option"
  INSTALLED_APPS :: "string list"

definition getattr :: "'a option \<Rightarrow> 'a \<Rightarrow> 'a" where
  "getattr v dflt = (case v of None \<Rightarrow> dflt | Some x \<Rightarrow> x)"

definition CACHE_PREFIX :: "settings \<Rightarrow> string \<Rightarrow> string" where
  "CACHE_PREFIX cfg = getattr (SPEEDTRACER_CACHE_PREFIX cfg) (\<lambda>s. ''speedtracer-'' @ s)"

definition DEBUG :: "settings \<Rightarrow> bool" where
  "DEBUG cfg = getattr (SPEEDTRACER_DEBUG cfg) False"

definition TRACE_DJANGO :: "settings \<Rightarrow> bool" where
  "TRACE_DJANGO cfg = getattr (SPEEDTRACER_TRACE_DJANGO cfg) False"

definition TRACE_URL :: "settings \<Rightarrow> string" where
  "TRACE_URL cfg = getattr (SPEEDTRACER_API_URL cfg) ''/__speedtracer__/''"

text \<open>
  The middleware instance (\<open>traces\<close>, \<open>call_stack\<close>, \<open>file_filter\<close>) together with the
  world around it: how many timestamps, record identities and UUIDs have been drawn, the
  lines printed to standard output, the Django cache (key, value and timeout of each
  entry) and whether \<^verbatim>\<open>trace_callback\<close> is the installed trace function.
  \<open>call_stack\<close> is a Python list: its last element is the top.
\<close>

record state =
  traces :: "span list"
  call_stack :: "span list"
  file_filter :: string
  clock_reads :: nat
  ids_taken :: nat
  uuids_taken :: nat
  stdout :: "string list"
  cache :: "(string \<times> pydata \<times> int) list"
  settrace :: bool

record request =
  path :: string
  req_method :: string
  speedtracer_start_time :: "real option"

record response =
  status_code :: int
  content :: string
  headers :: "(string \<times> string) list"

subsection \<open>Helpers\<close>

fun join :: "string \<Rightarrow> string list \<Rightarrow> string" where
  "join sep [] = []"
| "join sep [x] = x"
| "join sep (x # y # ys) = x @ sep @ join sep (y # ys)"

fun str_nat :: "nat \<Rightarrow> string" where
  "str_nat n =
     (if n < 10 then [char_of (48 + n)] else str_nat (n div 10) @ [char_of (48 + n mod 10)])"

declare str_nat.simps [simp del]

definition str_int :: "int \<Rightarrow> string" where
  "str_int i = (if i < 0 then CHR ''-'' # str_nat (nat (- i)) else str_nat (nat i))"

definition build_range :: "real \<Rightarrow> real \<Rightarrow> time_range" where
  "build_range start_time end_time = Range start_time end_time (end_time - start_time)"

definition set_range :: "span \<Rightarrow> time_range \<Rightarrow> span" where
  "set_range sp r = Span (operation sp) (children sp) r (span_id sp)"

definition append_child :: "span \<Rightarrow> span \<Rightarrow> span" where
  "append_child sp c = Span (operation sp) (children sp @ [c]) (span_range sp) (span_id sp)"

text \<open>
  Line 2 of the module is \<^verbatim>\<open>from __future__ import print_function\<close>, so
  \<^verbatim>\<open>print\<close> is an ordinary name and \<^verbatim>\<open>print >>sys.stderr, msg\<close> is the tuple
  expression \<^verbatim>\<open>(print >> sys.stderr, msg)\<close>. Its first component shifts a builtin
  function by a file object, which raises TypeError before anything is written.
\<close>

definition print_rshift_stderr :: "string \<Rightarrow> error + unit" where
  "print_rshift_stderr msg = Inl TypeError"

definition debug_line :: "string \<Rightarrow> frame \<Rightarrow> string" where
  "debug_line event fr =
     event @ '': '' @ co_name fr @ '' '' @ co_filename fr @ ''['' @ str_int (f_lineno fr) @ '']''"

definition new_record :: "env \<Rightarrow> state \<Rightarrow> frame \<Rightarrow> span" where
  "new_record ev st fr =
     (let mod_name = (case f_module fr of None \<Rightarrow> '''' | Some m \<Rightarrow> m);
          class_name = (case self_class_name fr of None \<Rightarrow> '''' | Some c \<Rightarrow> c)
      in Span
           \<lparr> sourceCodeLocation =
               \<lparr> className = co_filename fr, methodName = co_name fr, lineNumber = f_lineno fr \<rparr>,
             op_type = ''METHOD'',
             label = join ''.'' (filter (\<lambda>s. s \<noteq> []) [mod_name, class_name, co_name fr]) \<rparr>
           []
           (Start_time (time_time ev (clock_reads st)))
           (obj_id ev (ids_taken st)))"

subsection \<open>The trace function\<close>

definition trace_callback :: "env \<Rightarrow> settings \<Rightarrow> state \<Rightarrow> frame \<Rightarrow> string \<Rightarrow> error + state" where
  "trace_callback ev cfg st fr event =
     (if event \<noteq> ''call'' \<and> event \<noteq> ''return'' then Inr st
      else if \<not> re_match ev (file_filter st) (co_filename fr) then Inr st
      else
        let st1 = (if DEBUG cfg then st\<lparr>stdout := stdout st @ [debug_line event fr]\<rparr> else st)
        in if event = ''call'' then
             Inr (st1\<lparr>call_stack := call_stack st1 @ [new_record ev st1 fr],
                      clock_reads := Suc (clock_reads st1),
                      ids_taken := Suc (ids_taken st1)\<rparr>)
           else
             let end_time = time_time ev (clock_reads st1);
                 st2 = st1\<lparr>clock_reads := Suc (clock_reads st1)\<rparr>
             in if call_stack st2 = [] then
                  (case print_rshift_stderr ''Return without stack?'' of
                     Inl e \<Rightarrow> Inl e
                   | Inr _ \<Rightarrow> Inr st2)
                else
                  let current_frame = last (call_stack st2);
                      st3 = st2\<lparr>call_stack := butlast (call_stack st2)\<rparr>
                  in case span_range current_frame of
                       Range _ _ _ \<Rightarrow> Inl KeyError
                     | Start_time start_time \<Rightarrow>
                         let closed = set_range current_frame (build_range start_time end_time)
                         in if call_stack st3 = [] then
                              Inr (st3\<lparr>traces := traces st3 @ [closed]\<rparr>)
                            else
                              Inr (st3\<lparr>call_stack :=
                                         butlast (call_stack st3)
                                           @ [append_child (last (call_stack st3)) closed]\<rparr>))"

text \<open>
  The interpreter calls the trace function once per event; an exception raised by the
  trace function ends the run.
\<close>

fun run_events :: "env \<Rightarrow> settings \<Rightarrow> state \<Rightarrow> (frame \<times> string) list \<Rightarrow> error + state" where
  "run_events ev cfg st [] = Inr st"
| "run_events ev cfg st ((fr, event) # es) =
     (case trace_callback ev cfg st fr event of
        Inl e \<Rightarrow> Inl e
      | Inr st' \<Rightarrow> run_events ev cfg st' es)"

subsection \<open>The constructor\<close>

text \<open>
  \<^verbatim>\<open>sys.modules\<close> is a dictionary from module names to modules; of a module only
  \<^verbatim>\<open>__path__\<close> is read, \<open>None\<close> when the module has no such attribute. The order of
  the list is the order in which \<^verbatim>\<open>items()\<close> yields the entries. The Python set
  \<^verbatim>\<open>app_dirs\<close> is a list without repetitions.
\<close>

type_synonym sys_modules = "(string \<times> string list option) list"

definition module_path :: "sys_modules \<Rightarrow> string \<Rightarrow> error + string list" where
  "module_path mods app =
     (case map_of mods app of
        None \<Rightarrow> Inl KeyError
      | Some None \<Rightarrow> Inl AttributeError
      | Some (Some p) \<Rightarrow> Inr p)"

text \<open>\<^verbatim>\<open>app_dirs.add(*p)\<close>: \<^verbatim>\<open>set.add\<close> takes exactly one argument.\<close>

fun set_add_star :: "string list \<Rightarrow> string list \<Rightarrow> error + string list" where
  "set_add_star dirs [d] = Inr (List.insert d dirs)"
| "set_add_star dirs p = Inl TypeError"

text \<open>The inner loop \<^verbatim>\<open>for k, v in sys.modules.items()\<close>.\<close>

fun scan_modules ::
  "sys_modules \<Rightarrow> string \<Rightarrow> (string \<times> string list option) list \<Rightarrow> string list
     \<Rightarrow> error + string list" where
  "scan_modules mods app [] dirs = Inr dirs"
| "scan_modules mods app ((k, v) # items) dirs =
     (if prefix app k then
        (case module_path mods app of
           Inl e \<Rightarrow> Inl e
         | Inr p \<Rightarrow>
             (case set_add_star dirs p of
                Inl e \<Rightarrow> Inl e
              | Inr dirs' \<Rightarrow> scan_modules mods app items dirs'))
      else scan_modules mods app items dirs)"

text \<open>
  The outer loop \<^verbatim>\<open>for app in settings.INSTALLED_APPS\<close> with its
  \<^verbatim>\<open>try\<close>/\<^verbatim>\<open>except KeyError\<close>. A KeyError comes from \<^verbatim>\<open>sys.modules[app]\<close> at
  the first matching key, before anything was added for this application.
\<close>

fun app_dirs_loop ::
  "settings \<Rightarrow> sys_modules \<Rightarrow> string list \<Rightarrow> string list \<Rightarrow> error + string list" where
  "app_dirs_loop cfg mods [] dirs = Inr dirs"
| "app_dirs_loop cfg mods (app # apps) dirs =
     (if prefix ''django.'' app \<and> \<not> TRACE_DJANGO cfg then app_dirs_loop cfg mods apps dirs
      else
        (case scan_modules mods app mods dirs of
           Inr dirs' \<Rightarrow> app_dirs_loop cfg mods apps dirs'
         | Inl e \<Rightarrow>
             if e = KeyError then
               (case print_rshift_stderr (''Can't get path for app: '' @ app) of
                  Inl e' \<Rightarrow> Inl e'
                | Inr _ \<Rightarrow> app_dirs_loop cfg mods apps dirs)
             else Inl e))"

text \<open>
  \<^verbatim>\<open>__init__\<close> assigns the three attributes of the instance. The deprecation warning
  it issues first is not modelled.
\<close>

definition init :: "env \<Rightarrow> settings \<Rightarrow> sys_modules \<Rightarrow> state \<Rightarrow> error + state" where
  "init ev cfg mods st =
     (let st1 = st\<lparr>traces := [], call_stack := []\<rparr>
      in case SPEEDTRACER_FILE_FILTER_RE cfg of
           Some (Pattern_string p) \<Rightarrow> Inr (st1\<lparr>file_filter := p\<rparr>)
         | Some (Regex_object p) \<Rightarrow> Inr (st1\<lparr>file_filter := p\<rparr>)
         | None \<Rightarrow>
             (case app_dirs_loop cfg mods (INSTALLED_APPS cfg) [] of
                Inl e \<Rightarrow> Inl e
              | Inr app_dirs \<Rightarrow>
                  let app_dir_re = ''('' @ join ''|'' (map (re_escape ev) app_dirs) @ '')''
                  in (case print_rshift_stderr
                             (''Autogenerated settings.SPEEDTRACER_FILE_FILTER_RE: '' @ app_dir_re) of
                        Inl e \<Rightarrow> Inl e
                      | Inr _ \<Rightarrow> Inr (st1\<lparr>file_filter := app_dir_re\<rparr>))))"

subsection \<open>The request hooks\<close>

text \<open>Assignment to a key of a dictionary whose order of entries is kept.\<close>

fun dict_set :: "'k \<Rightarrow> 'v \<Rightarrow> ('k \<times> 'v) list \<Rightarrow> ('k \<times> 'v) list" where
  "dict_set k v [] = [(k, v)]"
| "dict_set k v ((k', v') # d) = (if k' = k then (k, v) # d else (k', v') # dict_set k v d)"

text \<open>
  \<^verbatim>\<open>cache.get(key, default)\<close> and \<^verbatim>\<open>cache.set(key, value, timeout)\<close>. An entry that
  has expired is an entry that is no longer in the list.
\<close>

definition cache_get :: "(string \<times> pydata \<times> int) list \<Rightarrow> string \<Rightarrow> pydata \<Rightarrow> pydata" where
  "cache_get c key dflt = (case map_of c key of None \<Rightarrow> dflt | Some (v, timeout) \<Rightarrow> v)"

definition cache_set ::
  "string \<Rightarrow> pydata \<Rightarrow> int \<Rightarrow> (string \<times> pydata \<times> int) list \<Rightarrow> (string \<times> pydata \<times> int) list" where
  "cache_set key v timeout c = dict_set key (v, timeout) c"

text \<open>
  \<^verbatim>\<open>HttpResponse(content, mimetype=m)\<close>: status 200 and the content type \<open>m\<close>. Header
  names are kept as written.
\<close>

definition HttpResponse :: "string \<Rightarrow> string \<Rightarrow> response" where
  "HttpResponse body mimetype =
     \<lparr> status_code = 200, content = body, headers = [(''Content-Type'', mimetype)] \<rparr>"

text \<open>
  \<^verbatim>\<open>process_request\<close> returns the request (whose attribute
  \<^verbatim>\<open>_speedtracer_start_time\<close> it may have set), the response it answers with
  (\<open>None\<close> when Django is to go on with the request) and the new state.
\<close>

definition process_request ::
  "env \<Rightarrow> settings \<Rightarrow> state \<Rightarrow> request \<Rightarrow> request \<times> response option \<times> state" where
  "process_request ev cfg st request =
     (if \<not> prefix (TRACE_URL cfg) (path request) then
        (request\<lparr>speedtracer_start_time := Some (time_time ev (clock_reads st))\<rparr>,
         None,
         st\<lparr>clock_reads := Suc (clock_reads st), settrace := True\<rparr>)
      else
        let key = CACHE_PREFIX cfg (drop (length (TRACE_URL cfg)) (path request));
            data = cache_get (cache st) key EmptyDict
        in (request,
            Some (HttpResponse (json_dumps ev data) ''application/json; charset=UTF-8''),
            st))"

definition process_response ::
  "env \<Rightarrow> settings \<Rightarrow> state \<Rightarrow> request \<Rightarrow> response \<Rightarrow> response \<times> state" where
  "process_response ev cfg st request resp =
     (let st0 = st\<lparr>settrace := False\<rparr>
      in case speedtracer_start_time request of
           None \<Rightarrow> (resp, st0)
         | Some start_time \<Rightarrow>
             let end_time = time_time ev (clock_reads st0);
                 tid = uuid4 ev (uuids_taken st0);
                 data = TraceData
                   \<lparr> trace_id = tid,
                     application = ''Django SpeedTracer'',
                     date = time_time ev (Suc (clock_reads st0)),
                     trace_range = build_range start_time end_time,
                     frameStack =
                       \<lparr> fs_id = 0,
                         fs_range = build_range start_time end_time,
                         fs_operation =
                           \<lparr> root_type = ''HTTP'',
                             root_label = req_method request @ '' '' @ path request \<rparr>,
                         fs_children = traces st0 \<rparr> \<rparr>;
                 st1 = st0\<lparr>clock_reads := Suc (Suc (clock_reads st0)),
                           uuids_taken := Suc (uuids_taken st0),
                           cache := cache_set (CACHE_PREFIX cfg tid) data
                                      (getattr (SPEEDTRACER_TRACE_TTL cfg) 3600) (cache st0)\<rparr>
             in (resp\<lparr>headers := dict_set ''X-TraceUrl'' (TRACE_URL cfg @ tid) (headers resp)\<rparr>,
                 st1))"

subsection \<open>A middleware instance at work\<close>

text \<open>
  Between its construction and now a middleware instance has seen trace events and has
  had its two hooks called, in some order. The responses the hooks hand to Django are
  dropped here; only the state is threaded through.
\<close>

datatype action = Event frame string | Request request | Response request response

fun step :: "env \<Rightarrow> settings \<Rightarrow> state \<Rightarrow> action \<Rightarrow> error + state" where
  "step ev cfg st (Event fr event) = trace_callback ev cfg st fr event"
| "step ev cfg st (Request rq) = Inr (snd (snd (process_request ev cfg st rq)))"
| "step ev cfg st (Response rq resp) = Inr (snd (process_response ev cfg st rq resp))"

fun run_actions :: "env \<Rightarrow> settings \<Rightarrow> state \<Rightarrow> action list \<Rightarrow> error + state" where
  "run_actions ev cfg st [] = Inr st"
| "run_actions ev cfg st (a # as) =
     (case step ev cfg st a of Inl e \<Rightarrow> Inl e | Inr st' \<Rightarrow> run_actions ev cfg st' as)"

section \<open>Vocabulary of the properties\<close>

subsection \<open>Call trees and the events they give rise to\<close>

text \<open>
  One function activation: the frame as it is at the call event, the line number the
  frame shows at the return event, and the activations started directly within it, in
  call order. A well-formed nested sequence of enter and exit events is the event
  sequence of a list of such trees.
\<close>

datatype call = Call frame int "call list"

fun events :: "call \<Rightarrow> (frame \<times> string) list" where
  "events (Call fr ret cs) =
     (fr, ''call'') # concat (map events cs) @ [(fr\<lparr>f_lineno := ret\<rparr>, ''return'')]"

text \<open>The operation a record gets from the frame of its call event.\<close>

definition operation_of :: "frame \<Rightarrow> operation" where
  "operation_of fr =
     \<lparr> sourceCodeLocation =
         \<lparr> className = co_filename fr, methodName = co_name fr, lineNumber = f_lineno fr \<rparr>,
       op_type = ''METHOD'',
       label = join ''.'' (filter (\<lambda>s. s \<noteq> [])
                 [case f_module fr of None \<Rightarrow> [] | Some m \<Rightarrow> m,
                  case self_class_name fr of None \<Rightarrow> [] | Some c \<Rightarrow> c,
                  co_name fr]) \<rparr>"

text \<open>
  Trees of operations: what a tree of records and a tree of calls are compared by.
  \<open>preorder\<close> is the depth-first walk, a node before its children.
\<close>

datatype optree = Node operation "optree list"

fun span_calls :: "span \<Rightarrow> optree" where
  "span_calls (Span opn cs r i) = Node opn (map span_calls cs)"

fun call_ops :: "call \<Rightarrow> optree" where
  "call_ops (Call fr ret cs) = Node (operation_of fr) (map call_ops cs)"

fun preorder :: "optree \<Rightarrow> operation list" where
  "preorder (Node opn ts) = opn # concat (map preorder ts)"

fun dfs :: "span \<Rightarrow> span list" where
  "dfs (Span opn cs r i) = Span opn cs r i # concat (map dfs cs)"

text \<open>
  \<open>all_match m c\<close>: every frame of the call tree \<open>c\<close> is on a path that \<open>m\<close> accepts.
  \<open>prune m c\<close>: the call tree without the activations \<open>m\<close> rejects, each replaced by
  the activations nested in it.
\<close>

fun all_match :: "(string \<Rightarrow> bool) \<Rightarrow> call \<Rightarrow> bool" where
  "all_match m (Call fr ret cs) = (m (co_filename fr) \<and> list_all (all_match m) cs)"

fun prune :: "(string \<Rightarrow> bool) \<Rightarrow> call \<Rightarrow> call list" where
  "prune m (Call fr ret cs) =
     (if m (co_filename fr) then [Call fr ret (concat (map (prune m) cs))]
      else concat (map (prune m) cs))"

subsection \<open>Where finished records go\<close>

text \<open>
  \<open>absorb spans (stack, roots)\<close>: the finished records \<open>spans\<close> are appended to the
  children of the top of the stack, or to the root list when the stack is empty.
\<close>

definition add_children :: "span \<Rightarrow> span list \<Rightarrow> span" where
  "add_children sp cs = Span (operation sp) (children sp @ cs) (span_range sp) (span_id sp)"

definition absorb :: "span list \<Rightarrow> span list \<times> span list \<Rightarrow> span list \<times> span list" where
  "absorb spans p =
     (case p of (stk, trs) \<Rightarrow>
        if stk = [] then ([], trs @ spans)
        else (butlast stk @ [add_children (last stk) spans], trs))"

definition recorded ::
  "env \<Rightarrow> settings \<Rightarrow> state \<Rightarrow> (frame \<times> string) list \<Rightarrow> call list \<Rightarrow> bool" where
  "recorded ev cfg st es cs \<longleftrightarrow>
     (\<exists>st' spans. run_events ev cfg st es = Inr st'
        \<and> file_filter st' = file_filter st
        \<and> (call_stack st', traces st') = absorb spans (call_stack st, traces st)
        \<and> map span_calls spans = map call_ops cs)"

subsection \<open>Ranges of finished records\<close>

text \<open>
  \<open>closed_ok sp\<close>: the record \<open>sp\<close> and every record below it has a range with
  \<open>start \<le> end\<close> and \<open>duration = end - start\<close>. \<open>open_ok ev n sp\<close>: the record
  \<open>sp\<close> is still open with a start time not after the \<open>n\<close>-th reading of the clock, and
  its children are finished.
\<close>

fun closed_ok :: "span \<Rightarrow> bool" where
  "closed_ok (Span opn cs r i) =
     ((case r of Range s e d \<Rightarrow> s \<le> e \<and> d = e - s | Start_time t \<Rightarrow> False)
      \<and> list_all closed_ok cs)"

definition open_ok :: "env \<Rightarrow> nat \<Rightarrow> span \<Rightarrow> bool" where
  "open_ok ev n sp \<longleftrightarrow>
     (case span_range sp of Start_time t \<Rightarrow> t \<le> time_time ev n | Range s e d \<Rightarrow> True)
     \<and> list_all closed_ok (children sp)"

definition recorder_inv :: "env \<Rightarrow> state \<Rightarrow> bool" where
  "recorder_inv ev st \<longleftrightarrow>
     list_all closed_ok (traces st) \<and> list_all (open_ok ev (clock_reads st)) (call_stack st)"

subsection \<open>A small installation\<close>

text \<open>
  A clock that ticks once per reading, literal path prefixes as patterns, and an
  application under \<^verbatim>\<open>/srv/app/\<close> with a view that loads a page through a helper of
  the standard library.
\<close>

definition demo_env :: env where
  "demo_env =
     \<lparr> time_time = real, obj_id = int, uuid4 = (\<lambda>n. ''uuid-'' @ str_nat n),
       re_match = prefix, re_escape = (\<lambda>s. s),
       json_dumps = (\<lambda>d. case d of EmptyDict \<Rightarrow> ''{}''
                              | TraceData t \<Rightarrow> ''{trace '' @ trace_id t @ ''}'') \<rparr>"

definition demo_cfg :: settings where
  "demo_cfg =
     \<lparr> SPEEDTRACER_CACHE_PREFIX = None, SPEEDTRACER_DEBUG = None,
       SPEEDTRACER_TRACE_DJANGO = None, SPEEDTRACER_API_URL = None,
       SPEEDTRACER_FILE_FILTER_RE = Some (Pattern_string ''/srv/app/''),
       SPEEDTRACER_TRACE_TTL = None, INSTALLED_APPS = [''blog''] \<rparr>"

definition blank :: state where
  "blank =
     \<lparr> traces = [], call_stack = [], file_filter = [], clock_reads = 0, ids_taken = 0,
       uuids_taken = 0, stdout = [], cache = [], settrace = False \<rparr>"

definition demo_start :: state where
  "demo_start = blank\<lparr>file_filter := ''/srv/app/''\<rparr>"

definition page_handler :: frame where
  "page_handler =
     \<lparr> co_filename = ''/srv/app/views.py'', co_name = ''page_handler'', f_lineno = 10,
       f_module = Some ''views'', self_class_name = None \<rparr>"

definition page_load :: frame where
  "page_load =
     \<lparr> co_filename = ''/srv/app/models.py'', co_name = ''load'', f_lineno = 42,
       f_module = Some ''models'', self_class_name = Some ''Page'' \<rparr>"

definition lib_helper :: frame where
  "lib_helper =
     \<lparr> co_filename = ''/usr/lib/python/functools.py'', co_name = ''wrapper'', f_lineno = 7,
       f_module = Some ''functools'', self_class_name = None \<rparr>"

definition demo_request :: request where
  "demo_request = \<lparr> path = ''/app/page'', req_method = ''GET'', speedtracer_start_time = None \<rparr>"

definition demo_response :: response where
  "demo_response =
     \<lparr> status_code = 200, content = ''<html/>'', headers = [(''Content-Type'', ''text/html'')] \<rparr>"

definition demo_calls :: "call list" where
  "demo_calls = [Call page_handler 12 [Call page_load 45 []]]"

definition demo_calls_lib :: "call list" where
  "demo_calls_lib = [Call page_handler 12 [Call lib_helper 9 [Call page_load 45 []]]]"

definition traced_request :: request where
  "traced_request = demo_request\<lparr>speedtracer_start_time := Some 0\<rparr>"

text \<open>
  Two requests in a row: the first runs the view, which loads a page; the second has
  just entered the view.
\<close>

definition demo_actions :: "action list" where
  "demo_actions =
     [Request demo_request,
      Event page_handler ''call'',
      Event lib_helper ''call'',
      Event page_load ''call'',
      Event page_load ''line'',
      Event (page_load\<lparr>f_lineno := 45\<rparr>) ''return'',
      Event (page_handler\<lparr>f_lineno := 12\<rparr>) ''return'',
      Response traced_request demo_response,
      Request demo_request,
      Event page_handler ''call'']"

text \<open>
  A request during which the view is entered and left, and the state the middleware is
  in when its response hook is about to be called.
\<close>

definition first_request :: "action list" where
  "first_request =
     [Request demo_request,
      Event page_handler ''call'',
      Event (page_handler\<lparr>f_lineno := 12\<rparr>) ''return'']"

definition demo_recorded :: span where
  "demo_recorded =
     Span
       \<lparr> sourceCodeLocation =
           \<lparr> className = ''/srv/app/views.py'', methodName = ''page_handler'', lineNumber = 10 \<rparr>,
         op_type = ''METHOD'', label = ''views.page_handler'' \<rparr>
       [] (Range 1 2 1) 0"

definition after_first :: state where
  "after_first =
     \<lparr> traces = [demo_recorded], call_stack = [], file_filter = ''/srv/app/'',
       clock_reads = 3, ids_taken = 1, uuids_taken = 0, stdout = [], cache = [],
       settrace = True \<rparr>"

definition tagged_response :: response where
  "tagged_response =
     fst (process_response demo_env demo_cfg after_first traced_request demo_response)"

definition after_stop :: state where
  "after_stop =
     snd (process_response demo_env demo_cfg after_first traced_request demo_response)"

definition fetch_request :: request where
  "fetch_request =
     \<lparr> path = ''/__speedtracer__/uuid-0'', req_method = ''GET'', speedtracer_start_time = None \<rparr>"

text \<open>
  An installation without \<^verbatim>\<open>SPEEDTRACER_FILE_FILTER_RE\<close>, at a moment when the
  application \<^verbatim>\<open>blog\<close> is not imported yet and \<^verbatim>\<open>blogroll\<close> is.
\<close>

definition demo_autoderive :: settings where
  "demo_autoderive = demo_cfg\<lparr>SPEEDTRACER_FILE_FILTER_RE := None\<rparr>"

definition demo_modules :: sys_modules where
  "demo_modules = [(''blogroll'', Some [''/srv/blogroll''])]"

lemmas demo_defs = demo_env_def demo_cfg_def demo_start_def blank_def page_handler_def
  page_load_def lib_helper_def demo_request_def demo_response_def demo_calls_def
  demo_calls_lib_def traced_request_def demo_actions_def first_request_def demo_recorded_def
  after_first_def fetch_request_def demo_autoderive_def demo_modules_def

lemmas unfold_defs = trace_callback_def process_request_def process_response_def Let_def
  DEBUG_def TRACE_URL_def CACHE_PREFIX_def getattr_def print_rshift_stderr_def new_record_def
  set_range_def append_child_def build_range_def cache_set_def cache_get_def HttpResponse_def

section \<open>Lemmas\<close>

subsection \<open>Single steps of the trace function\<close>

lemma trace_callback_other:
  "event \<noteq> ''call'' \<Longrightarrow> event \<noteq> ''return'' \<Longrightarrow> trace_callback ev cfg st fr event = Inr st"
  by (simp add: trace_callback_def)

lemma trace_callback_unmatched:
  "\<not> re_match ev (file_filter st) (co_filename fr) \<Longrightarrow> trace_callback ev cfg st fr event = Inr st"
  by (simp add: trace_callback_def)

lemma trace_callback_call:
  assumes "re_match ev (file_filter st) (co_filename fr)"
  shows "\<exists>st'. trace_callback ev cfg st fr ''call'' = Inr st'
           \<and> call_stack st' = call_stack st @ [new_record ev st fr]
           \<and> traces st' = traces st \<and> file_filter st' = file_filter st
           \<and> clock_reads st' = Suc (clock_reads st)"
  using assms by (simp add: trace_callback_def new_record_def Let_def)

lemma trace_callback_return_empty:
  assumes "re_match ev (file_filter st) (co_filename fr)" "call_stack st = []"
  shows "trace_callback ev cfg st fr ''return'' = Inl TypeError"
  using assms by (simp add: trace_callback_def Let_def print_rshift_stderr_def)

lemma trace_callback_return_closed:
  assumes "re_match ev (file_filter st) (co_filename fr)" "call_stack st \<noteq> []"
    "span_range (last (call_stack st)) = Range s e d"
  shows "trace_callback ev cfg st fr ''return'' = Inl KeyError"
  using assms by (simp add: trace_callback_def Let_def)

lemma trace_callback_return_root:
  assumes "re_match ev (file_filter st) (co_filename fr)" "call_stack st = [tp]"
    "span_range tp = Start_time s"
  shows "\<exists>st'. trace_callback ev cfg st fr ''return'' = Inr st'
           \<and> call_stack st' = []
           \<and> traces st' = traces st @ [set_range tp (build_range s (time_time ev (clock_reads st)))]
           \<and> file_filter st' = file_filter st
           \<and> clock_reads st' = Suc (clock_reads st)"
  using assms by (simp add: trace_callback_def Let_def)

lemma trace_callback_return_nested:
  assumes "re_match ev (file_filter st) (co_filename fr)" "call_stack st = stk @ [parent, tp]"
    "span_range tp = Start_time s"
  shows "\<exists>st'. trace_callback ev cfg st fr ''return'' = Inr st'
           \<and> call_stack st' = stk @ [append_child parent
                  (set_range tp (build_range s (time_time ev (clock_reads st))))]
           \<and> traces st' = traces st
           \<and> file_filter st' = file_filter st
           \<and> clock_reads st' = Suc (clock_reads st)"
  using assms by (simp add: trace_callback_def Let_def butlast_append)

lemma absorb_Nil: "absorb [] p = p"
  by (cases p) (simp add: absorb_def add_children_def)

lemma absorb_append: "absorb (xs @ ys) p = absorb ys (absorb xs p)"
  by (cases p) (simp add: absorb_def add_children_def)

lemma operation_new_record: "operation (new_record ev st fr) = operation_of fr"
  by (simp add: new_record_def operation_of_def Let_def)

lemma new_record_fields:
  "children (new_record ev st fr) = []"
  "span_range (new_record ev st fr) = Start_time (time_time ev (clock_reads st))"
  by (simp_all add: new_record_def Let_def)

lemma trace_callback_return_pop:
  assumes "re_match ev (file_filter st) (co_filename fr)" "call_stack st = stk @ [tp]"
    "span_range tp = Start_time s"
  shows "\<exists>st'. trace_callback ev cfg st fr ''return'' = Inr st'
           \<and> (call_stack st', traces st') =
               absorb [set_range tp (build_range s (time_time ev (clock_reads st)))] (stk, traces st)
           \<and> file_filter st' = file_filter st
           \<and> clock_reads st' = Suc (clock_reads st)"
proof (cases stk rule: rev_cases)
  case Nil
  with assms trace_callback_return_root [of ev st fr tp s cfg] show ?thesis
    by (auto simp: absorb_def)
next
  case (snoc stk' parent)
  with assms trace_callback_return_nested [of ev st fr stk' parent tp s cfg] show ?thesis
    by (auto simp: absorb_def append_child_def add_children_def)
qed

subsection \<open>Event sequences of call trees\<close>

lemma run_events_append:
  "run_events ev cfg st (es @ fs) =
     (case run_events ev cfg st es of Inl e \<Rightarrow> Inl e | Inr st' \<Rightarrow> run_events ev cfg st' fs)"
  by (induction es arbitrary: st) (auto split: sum.splits)

lemma recorded_Nil: "recorded ev cfg st [] []"
  unfolding recorded_def by (rule exI [of _ st], rule exI [of _ "[]"]) (simp add: absorb_Nil)

lemma recorded_append:
  assumes "recorded ev cfg st es cs"
    and "\<And>st'. file_filter st' = file_filter st \<Longrightarrow> recorded ev cfg st' fs ds"
  shows "recorded ev cfg st (es @ fs) (cs @ ds)"
proof -
  from assms(1) obtain st1 sp1 where 1: "run_events ev cfg st es = Inr st1"
    "file_filter st1 = file_filter st"
    "(call_stack st1, traces st1) = absorb sp1 (call_stack st, traces st)"
    "map span_calls sp1 = map call_ops cs"
    unfolding recorded_def by blast
  from assms(2) [OF 1(2)] obtain st2 sp2 where 2: "run_events ev cfg st1 fs = Inr st2"
    "file_filter st2 = file_filter st1"
    "(call_stack st2, traces st2) = absorb sp2 (call_stack st1, traces st1)"
    "map span_calls sp2 = map call_ops ds"
    unfolding recorded_def by blast
  show ?thesis unfolding recorded_def
    apply (rule exI [of _ st2], rule exI [of _ "sp1 @ sp2"])
    using 1 2 by (simp add: run_events_append absorb_append)
qed

lemma recorded_forest:
  assumes "\<And>c st'. c \<in> set cs \<Longrightarrow> file_filter st' = file_filter st
             \<Longrightarrow> recorded ev cfg st' (events c) (prune m c)"
  shows "recorded ev cfg st (concat (map events cs)) (concat (map (prune m) cs))"
  using assms
proof (induction cs arbitrary: st)
  case Nil
  show ?case by (simp add: recorded_Nil)
next
  case (Cons c cs)
  have hd: "recorded ev cfg st (events c) (prune m c)"
    by (rule Cons.prems) simp_all
  have tl: "recorded ev cfg st' (concat (map events cs)) (concat (map (prune m) cs))"
    if "file_filter st' = file_filter st" for st'
    by (rule Cons.IH, rule Cons.prems) (simp_all add: that)
  from recorded_append [OF hd tl] show ?case by simp
qed

lemma recorded_call:
  "recorded ev cfg st (events c) (prune (re_match ev (file_filter st)) c)"
proof (induction c arbitrary: st)
  case (Call fr ret cs)
  let ?m = "re_match ev (file_filter st)"
  have forest: "recorded ev cfg st' (concat (map events cs)) (concat (map (prune ?m) cs))"
    if "file_filter st' = file_filter st" for st'
    apply (rule recorded_forest)
    using Call.IH that by metis
  show ?case
  proof (cases "?m (co_filename fr)")
    case False
    from forest [of st] obtain st2 spans where 2:
      "run_events ev cfg st (concat (map events cs)) = Inr st2"
      "file_filter st2 = file_filter st"
      "(call_stack st2, traces st2) = absorb spans (call_stack st, traces st)"
      "map span_calls spans = map call_ops (concat (map (prune ?m) cs))"
      unfolding recorded_def by blast
    have "trace_callback ev cfg st2 (fr\<lparr>f_lineno := ret\<rparr>) ''return'' = Inr st2"
      using False 2(2) by (simp add: trace_callback_unmatched)
    with False 2(1) have "run_events ev cfg st (events (Call fr ret cs)) = Inr st2"
      by (simp add: run_events_append trace_callback_unmatched)
    with 2 False show ?thesis unfolding recorded_def by auto
  next
    case True
    from trace_callback_call [OF True, of cfg] obtain st1 where 1:
      "trace_callback ev cfg st fr ''call'' = Inr st1"
      "call_stack st1 = call_stack st @ [new_record ev st fr]"
      "traces st1 = traces st" "file_filter st1 = file_filter st"
      by blast
    from forest [OF 1(4)] obtain st2 spans where 2:
      "run_events ev cfg st1 (concat (map events cs)) = Inr st2"
      "file_filter st2 = file_filter st1"
      "(call_stack st2, traces st2) = absorb spans (call_stack st1, traces st1)"
      "map span_calls spans = map call_ops (concat (map (prune ?m) cs))"
      unfolding recorded_def by blast
    let ?tp = "add_children (new_record ev st fr) spans"
    from 2(3) 1 have stk2: "call_stack st2 = call_stack st @ [?tp]" "traces st2 = traces st"
      by (simp_all add: absorb_def)
    have rng: "span_range ?tp = Start_time (time_time ev (clock_reads st))"
      by (simp add: add_children_def new_record_fields)
    have m2: "re_match ev (file_filter st2) (co_filename (fr\<lparr>f_lineno := ret\<rparr>))"
      using True 1 2 by simp
    let ?closed = "set_range ?tp
        (build_range (time_time ev (clock_reads st)) (time_time ev (clock_reads st2)))"
    from trace_callback_return_pop [OF m2 stk2(1) rng, of cfg] obtain st3 where 3:
      "trace_callback ev cfg st2 (fr\<lparr>f_lineno := ret\<rparr>) ''return'' = Inr st3"
      "(call_stack st3, traces st3) = absorb [?closed] (call_stack st, traces st2)"
      "file_filter st3 = file_filter st2"
      by blast
    have shape: "span_calls ?closed = Node (operation_of fr) (map span_calls spans)"
      by (simp add: set_range_def add_children_def operation_new_record new_record_fields)
    have run: "run_events ev cfg st (events (Call fr ret cs)) = Inr st3"
      using 1 2 3 by (simp add: run_events_append)
    show ?thesis unfolding recorded_def
      apply (rule exI [of _ st3], rule exI [of _ "[?closed]"])
      using run 1 2 3 stk2 shape True by simp
  qed
qed

lemma recorded_calls:
  "recorded ev cfg st (concat (map events cs))
     (concat (map (prune (re_match ev (file_filter st))) cs))"
  by (rule recorded_forest) (metis recorded_call)

lemma prune_all_match: "all_match m c \<Longrightarrow> prune m c = [c]"
proof (induction c)
  case (Call fr ret cs)
  then have "concat (map (prune m) cs) = cs"
    by (induction cs) (auto)
  with Call.prems show ?case by simp
qed

lemma prune_forest_all_match: "list_all (all_match m) cs \<Longrightarrow> concat (map (prune m) cs) = cs"
  by (induction cs) (auto simp: prune_all_match)

lemma preorder_span_calls: "preorder (span_calls sp) = map operation (dfs sp)"
proof (induction sp)
  case (Span opn cs r i)
  then show ?case by (simp add: map_concat comp_def cong: map_cong)
qed

lemma preorder_call_ops:
  "preorder (call_ops c) =
     map (\<lambda>e. operation_of (fst e)) (filter (\<lambda>e. snd e = ''call'') (events c))"
proof (induction c)
  case (Call fr ret cs)
  then show ?case by (simp add: map_concat filter_concat comp_def cong: map_cong)
qed

lemma preorder_forest_spans:
  "concat (map preorder (map span_calls sps)) = map operation (concat (map dfs sps))"
  by (induction sps) (simp_all add: preorder_span_calls)

lemma preorder_forest_calls:
  "concat (map preorder (map call_ops cs)) =
     map (\<lambda>e. operation_of (fst e)) (filter (\<lambda>e. snd e = ''call'') (concat (map events cs)))"
  by (induction cs) (simp_all add: preorder_call_ops)

text \<open>
  An event on a path the filter rejects changes nothing, so a run is the run of its
  accepted events. (CPython does not even send the return event of a frame whose call
  event was answered with \<^verbatim>\<open>None\<close>.)
\<close>

lemma trace_callback_file_filter:
  "trace_callback ev cfg st fr event = Inr st' \<Longrightarrow> file_filter st' = file_filter st"
  by (auto simp: trace_callback_def Let_def print_rshift_stderr_def
        split: if_splits time_range.splits)

lemma run_events_skip_unmatched:
  "run_events ev cfg st es =
     run_events ev cfg st (filter (\<lambda>e. re_match ev (file_filter st) (co_filename (fst e))) es)"
proof (induction es arbitrary: st)
  case Nil
  show ?case by simp
next
  case (Cons e es)
  obtain fr event where e: "e = (fr, event)" by (cases e)
  show ?case
  proof (cases "re_match ev (file_filter st) (co_filename fr)")
    case False
    with Cons.IH [of st] e show ?thesis by (simp add: trace_callback_unmatched)
  next
    case True
    show ?thesis
    proof (cases "trace_callback ev cfg st fr event")
      case (Inl err)
      with True e show ?thesis by simp
    next
      case (Inr st1)
      from trace_callback_file_filter [OF Inr] Cons.IH [of st1] Inr True e
      show ?thesis by simp
    qed
  qed
qed

subsection \<open>Ranges\<close>

lemma open_ok_mono:
  "mono (time_time ev) \<Longrightarrow> n \<le> n' \<Longrightarrow> open_ok ev n sp \<Longrightarrow> open_ok ev n' sp"
  unfolding open_ok_def mono_def
  by (cases "span_range sp") (auto intro: order_trans)

lemma open_ok_new_record:
  "mono (time_time ev) \<Longrightarrow> open_ok ev (Suc (clock_reads st)) (new_record ev st fr)"
  by (simp add: open_ok_def new_record_fields mono_def)

lemma open_ok_append_child:
  "open_ok ev n p \<Longrightarrow> closed_ok c \<Longrightarrow> open_ok ev n (append_child p c)"
  by (auto simp: open_ok_def append_child_def)

lemma closed_ok_set_range:
  "open_ok ev n tp \<Longrightarrow> span_range tp = Start_time s
     \<Longrightarrow> closed_ok (set_range tp (build_range s (time_time ev n)))"
  by (auto simp: open_ok_def set_range_def build_range_def)

lemma trace_callback_inv:
  assumes mono: "mono (time_time ev)" and inv: "recorder_inv ev st"
    and step: "trace_callback ev cfg st fr event = Inr st'"
  shows "recorder_inv ev st'"
proof -
  consider (skip) "st' = st"
    | (call) "event = ''call''" "re_match ev (file_filter st) (co_filename fr)"
    | (ret) "event = ''return''" "re_match ev (file_filter st) (co_filename fr)"
    using step by (cases "event = ''call''"; cases "event = ''return''";
        cases "re_match ev (file_filter st) (co_filename fr)")
      (simp_all add: trace_callback_other trace_callback_unmatched)
  then show ?thesis
  proof cases
    case skip
    with inv show ?thesis by simp
  next
    case call
    from trace_callback_call [OF call(2), of cfg] step call(1)
    have "call_stack st' = call_stack st @ [new_record ev st fr]" "traces st' = traces st"
      "clock_reads st' = Suc (clock_reads st)" by auto
    with inv mono show ?thesis
      by (auto simp: recorder_inv_def list_all_iff open_ok_new_record
            intro: open_ok_mono [of ev "clock_reads st"])
  next
    case ret
    show ?thesis
    proof (cases "call_stack st" rule: rev_cases)
      case Nil
      with ret step trace_callback_return_empty [of ev st fr cfg] show ?thesis by simp
    next
      case (snoc stk tp)
      show ?thesis
      proof (cases "span_range tp")
        case (Range s e d)
        with snoc ret step trace_callback_return_closed [of ev st fr s e d cfg] show ?thesis
          by simp
      next
        case (Start_time s)
        let ?closed = "set_range tp (build_range s (time_time ev (clock_reads st)))"
        from inv snoc have tp: "open_ok ev (clock_reads st) tp"
          and stk: "\<forall>sp \<in> set stk. open_ok ev (clock_reads st) sp"
          by (auto simp: recorder_inv_def list_all_iff)
        have closed: "closed_ok ?closed" using tp Start_time by (rule closed_ok_set_range)
        from trace_callback_return_pop [OF ret(2) snoc Start_time, of cfg] step ret(1)
        have res: "(call_stack st', traces st') = absorb [?closed] (stk, traces st)"
          "clock_reads st' = Suc (clock_reads st)" by auto
        show ?thesis
        proof (cases stk rule: rev_cases)
          case Nil
          with res inv closed show ?thesis by (auto simp: recorder_inv_def absorb_def)
        next
          case (snoc stk' parent)
          with res have "call_stack st' = stk' @ [append_child parent ?closed]"
            "traces st' = traces st"
            by (auto simp: absorb_def add_children_def append_child_def)
          with res(2) inv stk snoc closed mono show ?thesis
            by (auto simp: recorder_inv_def list_all_iff intro!: open_ok_append_child
                  intro: open_ok_mono [of ev "clock_reads st"])
        qed
      qed
    qed
  qed
qed

lemma process_request_inv:
  assumes "mono (time_time ev)" "recorder_inv ev st"
  shows "recorder_inv ev (snd (snd (process_request ev cfg st rq)))"
  using assms
  by (auto simp: process_request_def recorder_inv_def Let_def list_all_iff
        intro: open_ok_mono [of ev "clock_reads st"])

lemma process_response_inv:
  assumes "mono (time_time ev)" "recorder_inv ev st"
  shows "recorder_inv ev (snd (process_response ev cfg st rq resp))"
  using assms
  by (auto simp: process_response_def recorder_inv_def Let_def list_all_iff split: option.splits
        intro: open_ok_mono [of ev "clock_reads st"])

lemma step_inv:
  "mono (time_time ev) \<Longrightarrow> recorder_inv ev st \<Longrightarrow> step ev cfg st a = Inr st'
     \<Longrightarrow> recorder_inv ev st'"
  by (cases a) (auto simp: process_request_inv process_response_inv dest: trace_callback_inv)

lemma run_actions_inv:
  "mono (time_time ev) \<Longrightarrow> recorder_inv ev st \<Longrightarrow> run_actions ev cfg st as = Inr st'
     \<Longrightarrow> recorder_inv ev st'"
  by (induction as arbitrary: st) (auto split: sum.splits dest: step_inv)

lemma init_inv: "init ev cfg mods st0 = Inr st \<Longrightarrow> recorder_inv ev st"
  by (auto simp: init_def Let_def recorder_inv_def print_rshift_stderr_def
        split: option.splits filter_setting.splits sum.splits)

subsection \<open>Dictionaries and numerals\<close>

lemma str_nat_zero: "str_nat 0 = ''0''"
  by code_simp

lemma map_of_dict_set: "map_of (dict_set k v d) k' = (if k' = k then Some v else map_of d k')"
  by (induction d) auto

section \<open>The claims\<close>

subsection \<open>Recording\<close>

text \<open>
  Claim C1, as the code has it. The specification says that starting to trace a new
  request clears the root-span list and the execution stack. \<^verbatim>\<open>process_request\<close>
  assigns neither: after \<^verbatim>\<open>process_response\<close> (stop) and \<^verbatim>\<open>process_request\<close>
  (start) both lists are what they were before, and only \<^verbatim>\<open>__init__\<close> makes them
  empty.
\<close>

theorem start_keeps_recorded_spans:
  "traces (snd (snd (process_request ev cfg (snd (process_response ev cfg st rq resp)) rq')))
     = traces st
   \<and> call_stack (snd (snd (process_request ev cfg (snd (process_response ev cfg st rq resp)) rq')))
     = call_stack st
   \<and> (init ev cfg mods st0 = Inr st1 \<longrightarrow> traces st1 = [] \<and> call_stack st1 = [])"
  by (auto simp: process_request_def process_response_def Let_def init_def print_rshift_stderr_def
        split: option.splits filter_setting.splits sum.splits)

theorem start_keeps_recorded_spans_witness:
  "traces (snd (snd (process_request demo_env demo_cfg
       (snd (process_response demo_env demo_cfg after_first traced_request demo_response))
       demo_request))) = [demo_recorded]
   \<and> call_stack (snd (snd (process_request demo_env demo_cfg
       (snd (process_response demo_env demo_cfg after_first traced_request demo_response))
       demo_request))) = []
   \<and> init demo_env demo_cfg [] blank = Inr demo_start
   \<and> traces demo_start = [] \<and> call_stack demo_start = []"
proof -
  have i: "init demo_env demo_cfg [] blank = Inr demo_start"
    by (simp add: init_def demo_defs)
  have t: "traces after_first = [demo_recorded]" and c: "call_stack after_first = []"
    by (simp_all add: after_first_def)
  from start_keeps_recorded_spans [of demo_env demo_cfg after_first traced_request
      demo_response demo_request "[]" blank demo_start] i t c
  show ?thesis by simp
qed

text \<open>
  Claim C1, as the specification states it, fails. The first request of the small
  installation leaves one record in the root-span list; after stop and start for the
  second request that record is still there.
\<close>

theorem start_does_not_reset_counterexample:
  "run_actions demo_env demo_cfg demo_start first_request = Inr after_first
   \<and> traces (snd (snd (process_request demo_env demo_cfg
        (snd (process_response demo_env demo_cfg after_first traced_request demo_response))
        demo_request))) = [demo_recorded]"
  by (simp add: demo_defs unfold_defs)

text \<open>
  Claim C2. A well-formed nested sequence of enter and exit events, all on paths the
  filter accepts, fed to a recorder with empty lists: the run ends without an exception
  and with an empty stack; the tree of records equals the tree of calls, so each
  record's children are the calls made directly within it, in call order; and the
  depth-first walk of the root-span list lists the operations of the call events in
  their order of arrival.
\<close>

theorem nested_events_recorded_in_call_order:
  assumes "traces st = []" "call_stack st = []"
    and "list_all (all_match (re_match ev (file_filter st))) cs"
  shows "\<exists>st'. run_events ev cfg st (concat (map events cs)) = Inr st'
           \<and> call_stack st' = []
           \<and> map span_calls (traces st') = map call_ops cs
           \<and> map operation (concat (map dfs (traces st'))) =
               map (\<lambda>e. operation_of (fst e))
                 (filter (\<lambda>e. snd e = ''call'') (concat (map events cs)))"
proof -
  from recorded_calls [of ev cfg st cs] assms obtain st' spans where
    run: "run_events ev cfg st (concat (map events cs)) = Inr st'"
    and stk: "call_stack st' = []" and trs: "traces st' = spans"
    and shape: "map span_calls spans = map call_ops cs"
    unfolding recorded_def by (auto simp: absorb_def prune_forest_all_match)
  have "map operation (concat (map dfs (traces st'))) =
      concat (map preorder (map span_calls (traces st')))"
    by (simp only: preorder_forest_spans)
  also have "\<dots> = concat (map preorder (map call_ops cs))"
    using trs shape by simp
  finally have "map operation (concat (map dfs (traces st'))) =
      map (\<lambda>e. operation_of (fst e)) (filter (\<lambda>e. snd e = ''call'') (concat (map events cs)))"
    by (simp only: preorder_forest_calls)
  with run stk trs shape show ?thesis by blast
qed

theorem nested_events_recorded_in_call_order_witness:
  "traces demo_start = [] \<and> call_stack demo_start = []
   \<and> list_all (all_match (re_match demo_env (file_filter demo_start))) demo_calls
   \<and> (\<exists>st'. run_events demo_env demo_cfg demo_start (concat (map events demo_calls)) = Inr st'
           \<and> call_stack st' = []
           \<and> map span_calls (traces st') = map call_ops demo_calls
           \<and> map operation (concat (map dfs (traces st'))) =
               map (\<lambda>e. operation_of (fst e))
                 (filter (\<lambda>e. snd e = ''call'') (concat (map events demo_calls))))"
proof -
  have h1: "traces demo_start = []" and h2: "call_stack demo_start = []"
    by (simp_all add: demo_defs)
  have h3: "list_all (all_match (re_match demo_env (file_filter demo_start))) demo_calls"
    by (simp add: demo_defs)
  from nested_events_recorded_in_call_order [OF h1 h2 h3, of demo_cfg] h1 h2 h3
  show ?thesis by blast
qed

text \<open>
  Claim C3. An event on a path the filter rejects leaves the recorder as it is: no
  record is made. For any well-formed nested sequence of events, whatever the paths,
  the run from an empty stack ends without an exception and with an empty stack, and the
  records appended to the root-span list form the call forest with every rejected
  activation replaced by what was recorded inside it: a matching call below rejected
  frames is a child of the nearest enclosing matching call, or a root when there is
  none.
\<close>

theorem unmatched_frames_are_transparent:
  assumes "call_stack st = []"
  shows "(\<not> re_match ev (file_filter st) (co_filename fr)
            \<longrightarrow> trace_callback ev cfg st fr event = Inr st)
       \<and> (\<exists>st' spans. run_events ev cfg st (concat (map events cs)) = Inr st'
            \<and> call_stack st' = []
            \<and> traces st' = traces st @ spans
            \<and> map span_calls spans =
                map call_ops (concat (map (prune (re_match ev (file_filter st))) cs)))"
proof
  show "\<not> re_match ev (file_filter st) (co_filename fr)
          \<longrightarrow> trace_callback ev cfg st fr event = Inr st"
    by (simp add: trace_callback_unmatched)
next
  from recorded_calls [of ev cfg st cs] assms
  show "\<exists>st' spans. run_events ev cfg st (concat (map events cs)) = Inr st'
            \<and> call_stack st' = []
            \<and> traces st' = traces st @ spans
            \<and> map span_calls spans =
                map call_ops (concat (map (prune (re_match ev (file_filter st))) cs))"
    unfolding recorded_def by (auto simp: absorb_def)
qed

theorem unmatched_frames_are_transparent_witness:
  "call_stack demo_start = []
   \<and> \<not> re_match demo_env (file_filter demo_start) (co_filename lib_helper)
   \<and> trace_callback demo_env demo_cfg demo_start lib_helper ''call'' = Inr demo_start
   \<and> (\<exists>st' spans.
         run_events demo_env demo_cfg demo_start (concat (map events demo_calls_lib)) = Inr st'
         \<and> call_stack st' = []
         \<and> traces st' = traces demo_start @ spans
         \<and> map span_calls spans = map call_ops demo_calls)"
proof -
  have h1: "call_stack demo_start = []" by (simp add: demo_defs)
  have h2: "\<not> re_match demo_env (file_filter demo_start) (co_filename lib_helper)"
    by (simp add: demo_defs)
  have p: "concat (map (prune (re_match demo_env (file_filter demo_start))) demo_calls_lib)
      = demo_calls"
    by (simp add: demo_defs)
  from unmatched_frames_are_transparent
         [OF h1, of demo_env lib_helper demo_cfg "''call''" demo_calls_lib] h1 h2 p
  show ?thesis by simp
qed

text \<open>
  Claim C4, on the code. A return event on an accepted path that finds the execution
  stack empty reaches \<^verbatim>\<open>print >>sys.stderr, "Return without stack?"\<close>. Under the
  module's \<^verbatim>\<open>print_function\<close> import that statement raises TypeError: no diagnostic is
  written and the exception leaves the trace function.
\<close>

theorem return_on_empty_stack_raises:
  assumes "re_match ev (file_filter st) (co_filename fr)" "call_stack st = []"
  shows "trace_callback ev cfg st fr ''return'' = Inl TypeError"
  using assms by (simp add: trace_callback_def Let_def print_rshift_stderr_def)

theorem return_on_empty_stack_raises_witness:
  "re_match demo_env (file_filter demo_start) (co_filename page_handler)
   \<and> call_stack demo_start = []
   \<and> trace_callback demo_env demo_cfg demo_start page_handler ''return'' = Inl TypeError"
proof -
  have h1: "re_match demo_env (file_filter demo_start) (co_filename page_handler)"
    and h2: "call_stack demo_start = []"
    by (simp_all add: demo_defs)
  from return_on_empty_stack_raises [OF h1 h2, of demo_cfg] h1 h2 show ?thesis by simp
qed

text \<open>
  Claim C5. With a clock whose readings never go down, whatever a middleware has been
  through since its construction (trace events of any kind and order, calls of its
  hooks), every record in its root-span list, every record below one, and every record
  below an open record on the stack has \<open>start \<le> end\<close> and \<open>duration = end - start\<close>.
\<close>

theorem closed_spans_have_ordered_range:
  assumes "mono (time_time ev)" "init ev cfg mods st0 = Inr st"
    "run_actions ev cfg st as = Inr st'"
  shows "list_all closed_ok (traces st')
       \<and> list_all (\<lambda>sp. list_all closed_ok (children sp)) (call_stack st')"
  using run_actions_inv [OF assms(1) init_inv [OF assms(2)] assms(3)]
  by (simp add: recorder_inv_def open_ok_def list_all_iff)

theorem closed_spans_have_ordered_range_witness:
  "mono (time_time demo_env)
   \<and> init demo_env demo_cfg [] blank = Inr demo_start
   \<and> (\<exists>st'. run_actions demo_env demo_cfg demo_start demo_actions = Inr st'
         \<and> traces st' \<noteq> []
         \<and> list_all closed_ok (traces st')
         \<and> list_all (\<lambda>sp. list_all closed_ok (children sp)) (call_stack st'))"
proof -
  have m: "mono (time_time demo_env)" by (simp add: demo_env_def mono_def)
  have i: "init demo_env demo_cfg [] blank = Inr demo_start"
    by (simp add: init_def demo_defs)
  obtain st' where r: "run_actions demo_env demo_cfg demo_start demo_actions = Inr st'"
    and t: "traces st' \<noteq> []"
    by (simp add: demo_defs unfold_defs)
  from closed_spans_have_ordered_range [OF m i r] m i r t show ?thesis by blast
qed

subsection \<open>Construction of the filter\<close>

text \<open>
  Claim C7, on the code. Without \<^verbatim>\<open>SPEEDTRACER_FILE_FILTER_RE\<close>, with the
  application \<^verbatim>\<open>blog\<close> installed but not imported and \<^verbatim>\<open>blogroll\<close> imported,
  \<^verbatim>\<open>sys.modules['blog']\<close> raises KeyError; the handler's
  \<^verbatim>\<open>print >>sys.stderr, ...\<close> raises TypeError, and so does \<^verbatim>\<open>__init__\<close>.
\<close>

theorem filter_construction_fails_on_unknown_app:
  "init demo_env demo_autoderive demo_modules blank = Inl TypeError"
  by (simp add: init_def demo_defs TRACE_DJANGO_def getattr_def module_path_def
      print_rshift_stderr_def)

text \<open>
  The same statement stands after the loop, so no filter is ever derived from the
  installed applications; and the handler is for KeyError only, so a module without
  \<^verbatim>\<open>__path__\<close> ends the construction as well.
\<close>

lemma init_autoderive_raises:
  "SPEEDTRACER_FILE_FILTER_RE cfg = None \<Longrightarrow> \<exists>e. init ev cfg mods st = Inl e"
  by (simp add: init_def print_rshift_stderr_def Let_def split: sum.splits)

lemma init_module_without_path:
  "init demo_env demo_autoderive [(''blog'', None)] blank = Inl AttributeError"
  by (simp add: init_def demo_defs TRACE_DJANGO_def getattr_def module_path_def)

lemma init_unloaded_app_not_reported:
  "app_dirs_loop demo_autoderive [] [''blog''] [] = Inr []"
  by (simp add: demo_defs TRACE_DJANGO_def getattr_def)

subsection \<open>The request hooks\<close>

text \<open>
  Claim C6. A request under the retrieval prefix whose key has no entry in the cache
  (never written, or expired) is answered with status 200, content type
  \<^verbatim>\<open>application/json; charset=UTF-8\<close> and the JSON text of the empty dictionary; the
  request and the state are left as they are.
\<close>

theorem unknown_key_yields_empty_document:
  assumes "prefix (TRACE_URL cfg) (path rq)"
    and "map_of (cache st) (CACHE_PREFIX cfg (drop (length (TRACE_URL cfg)) (path rq))) = None"
  shows "process_request ev cfg st rq =
           (rq,
            Some \<lparr> status_code = 200, content = json_dumps ev EmptyDict,
                   headers = [(''Content-Type'', ''application/json; charset=UTF-8'')] \<rparr>,
            st)"
  using assms by (simp add: process_request_def cache_get_def HttpResponse_def)

theorem unknown_key_yields_empty_document_witness:
  "prefix (TRACE_URL demo_cfg) ''/__speedtracer__/no-such-id''
   \<and> map_of (cache demo_start) (CACHE_PREFIX demo_cfg ''no-such-id'') = None
   \<and> process_request demo_env demo_cfg demo_start
        \<lparr> path = ''/__speedtracer__/no-such-id'', req_method = ''GET'',
          speedtracer_start_time = None \<rparr>
      = (\<lparr> path = ''/__speedtracer__/no-such-id'', req_method = ''GET'',
           speedtracer_start_time = None \<rparr>,
         Some \<lparr> status_code = 200, content = ''{}'',
                headers = [(''Content-Type'', ''application/json; charset=UTF-8'')] \<rparr>,
         demo_start)"
proof -
  let ?rq = "\<lparr> path = ''/__speedtracer__/no-such-id'', req_method = ''GET'',
                speedtracer_start_time = None \<rparr>"
  have h1: "prefix (TRACE_URL demo_cfg) (path ?rq)"
    by (simp add: demo_cfg_def TRACE_URL_def getattr_def)
  have d: "drop (length (TRACE_URL demo_cfg)) (path ?rq) = ''no-such-id''"
    by (simp add: demo_cfg_def TRACE_URL_def getattr_def)
  have h2: "map_of (cache demo_start)
      (CACHE_PREFIX demo_cfg (drop (length (TRACE_URL demo_cfg)) (path ?rq))) = None"
    by (simp add: demo_start_def blank_def)
  have j: "json_dumps demo_env EmptyDict = ''{}''"
    by (simp add: demo_env_def)
  from unknown_key_yields_empty_document [OF h1 h2, of demo_env] h1 h2 d j
  show ?thesis by simp
qed

text \<open>
  Claim C8. When the request carries no start timestamp, \<^verbatim>\<open>process_response\<close>
  returns the response it was given; of the state only the trace hook changes (it is
  removed): nothing is stored in the cache, no UUID is drawn, the clock is not read.
\<close>

theorem untraced_response_passes_through:
  assumes "speedtracer_start_time rq = None"
  shows "process_response ev cfg st rq resp = (resp, st\<lparr>settrace := False\<rparr>)"
  using assms by (simp add: process_response_def)

theorem untraced_response_passes_through_witness:
  "speedtracer_start_time demo_request = None
   \<and> process_response demo_env demo_cfg demo_start demo_request demo_response
       = (demo_response, demo_start\<lparr>settrace := False\<rparr>)"
  using untraced_response_passes_through [of demo_request demo_env demo_cfg demo_start demo_response]
  by (simp add: demo_request_def)

text \<open>
  Claim C9. For a traced request \<^verbatim>\<open>process_response\<close> draws an identifier, sets the
  header \<^verbatim>\<open>X-TraceUrl\<close> to the retrieval prefix followed by the identifier, and stores
  under the key made from the identifier a document that carries the identifier and the
  root-span list. Any later request for the path in the header, in any state whose cache
  still holds that entry, is answered with status 200 and the JSON text of exactly that
  document.
\<close>

theorem stored_trace_is_served_back:
  assumes "speedtracer_start_time rq = Some t"
    and "process_response ev cfg st rq resp = (resp', st')"
  shows "map_of (headers resp') ''X-TraceUrl'' = Some (TRACE_URL cfg @ uuid4 ev (uuids_taken st))
       \<and> (\<exists>doc ttl.
             map_of (cache st') (CACHE_PREFIX cfg (uuid4 ev (uuids_taken st)))
               = Some (TraceData doc, ttl)
           \<and> trace_id doc = uuid4 ev (uuids_taken st)
           \<and> fs_children (frameStack doc) = traces st
           \<and> (\<forall>st2 rq2.
                 path rq2 = TRACE_URL cfg @ uuid4 ev (uuids_taken st)
                 \<and> map_of (cache st2) (CACHE_PREFIX cfg (uuid4 ev (uuids_taken st)))
                     = Some (TraceData doc, ttl)
                 \<longrightarrow> process_request ev cfg st2 rq2 =
                       (rq2,
                        Some \<lparr> status_code = 200, content = json_dumps ev (TraceData doc),
                               headers = [(''Content-Type'', ''application/json; charset=UTF-8'')] \<rparr>,
                        st2)))"
  using assms
  by (auto simp: process_response_def process_request_def Let_def map_of_dict_set cache_set_def
        cache_get_def HttpResponse_def)

theorem stored_trace_is_served_back_witness:
  "speedtracer_start_time traced_request = Some 0
   \<and> process_response demo_env demo_cfg after_first traced_request demo_response
       = (tagged_response, after_stop)
   \<and> map_of (headers tagged_response) ''X-TraceUrl'' = Some ''/__speedtracer__/uuid-0''
   \<and> process_request demo_env demo_cfg after_stop fetch_request =
       (fetch_request,
        Some \<lparr> status_code = 200, content = ''{trace uuid-0}'',
               headers = [(''Content-Type'', ''application/json; charset=UTF-8'')] \<rparr>,
        after_stop)"
proof -
  have h1: "speedtracer_start_time traced_request = Some 0"
    by (simp add: traced_request_def demo_request_def)
  have h2: "process_response demo_env demo_cfg after_first traced_request demo_response
      = (tagged_response, after_stop)"
    by (simp add: tagged_response_def after_stop_def)
  have u: "uuid4 demo_env (uuids_taken after_first) = ''uuid-0''"
    by (simp add: demo_env_def after_first_def str_nat_zero)
  have p: "TRACE_URL demo_cfg = ''/__speedtracer__/''"
    by (simp add: TRACE_URL_def getattr_def demo_cfg_def)
  from stored_trace_is_served_back [OF h1 h2] u p obtain doc ttl where
    hdr: "map_of (headers tagged_response) ''X-TraceUrl'' = Some ''/__speedtracer__/uuid-0''"
    and stored: "map_of (cache after_stop) (CACHE_PREFIX demo_cfg ''uuid-0'')
        = Some (TraceData doc, ttl)"
    and tid: "trace_id doc = ''uuid-0''"
    and served: "\<And>st2 rq2. path rq2 = ''/__speedtracer__/uuid-0''
        \<Longrightarrow> map_of (cache st2) (CACHE_PREFIX demo_cfg ''uuid-0'') = Some (TraceData doc, ttl)
        \<Longrightarrow> process_request demo_env demo_cfg st2 rq2 =
              (rq2,
               Some \<lparr> status_code = 200, content = json_dumps demo_env (TraceData doc),
                      headers = [(''Content-Type'', ''application/json; charset=UTF-8'')] \<rparr>,
               st2)"
    by auto
  have j: "json_dumps demo_env (TraceData doc) = ''{trace uuid-0}''"
    using tid by (simp add: demo_env_def)
  have "path fetch_request = ''/__speedtracer__/uuid-0''"
    by (simp add: fetch_request_def)
  from served [OF this stored] j h1 h2 hdr show ?thesis by simp
qed

text \<open>
  Claim C10. For a traced request \<^verbatim>\<open>process_response\<close> returns the response it was
  given with the header \<^verbatim>\<open>X-TraceUrl\<close> set: status, body and every other header are
  unchanged. (A response is a value here; that the object is the same one is not
  expressible.)
\<close>

theorem traced_response_only_gains_header:
  assumes "speedtracer_start_time rq = Some t"
  shows "fst (process_response ev cfg st rq resp) =
           resp\<lparr>headers := dict_set ''X-TraceUrl'' (TRACE_URL cfg @ uuid4 ev (uuids_taken st))
                               (headers resp)\<rparr>
       \<and> status_code (fst (process_response ev cfg st rq resp)) = status_code resp
       \<and> content (fst (process_response ev cfg st rq resp)) = content resp
       \<and> (\<forall>h. h \<noteq> ''X-TraceUrl''
              \<longrightarrow> map_of (headers (fst (process_response ev cfg st rq resp))) h
                  = map_of (headers resp) h)"
  using assms by (simp add: process_response_def Let_def map_of_dict_set)

theorem traced_response_only_gains_header_witness:
  "speedtracer_start_time traced_request = Some 0
   \<and> tagged_response =
       \<lparr> status_code = 200, content = ''<html/>'',
         headers = [(''Content-Type'', ''text/html''),
                    (''X-TraceUrl'', ''/__speedtracer__/uuid-0'')] \<rparr>
   \<and> status_code tagged_response = status_code demo_response
   \<and> content tagged_response = content demo_response
   \<and> map_of (headers tagged_response) ''Content-Type'' = map_of (headers demo_response) ''Content-Type''"
proof -
  have h1: "speedtracer_start_time traced_request = Some 0"
    by (simp add: traced_request_def demo_request_def)
  have u: "uuid4 demo_env (uuids_taken after_first) = ''uuid-0''"
    by (simp add: demo_env_def after_first_def str_nat_zero)
  have p: "TRACE_URL demo_cfg = ''/__speedtracer__/''"
    by (simp add: TRACE_URL_def getattr_def demo_cfg_def)
  from traced_response_only_gains_header
         [OF h1, of demo_env demo_cfg after_first demo_response] u p h1
  show ?thesis by (simp add: tagged_response_def demo_response_def)
qed

end
